theory Spec2Isabelle
  imports Main "HOL-Library.Sublist"
begin

section \<open>Values and strings\<close>

text \<open>
  The action handler of \<^verbatim>\<open>smart_home.py\<close> receives a list of loosely typed
  instructions: the dummy parser builds dictionaries with string values, the language
  model returns whatever \<^verbatim>\<open>json.loads\<close> makes of its answer.

  A Python string is a sequence of code points. The characters modelled are the 256 code
  points of Latin-1, \<open>L1 c\<close> for the code point \<open>of_char c\<close>, and U+0131, the dotless
  i, a character outside Latin-1 that \<^verbatim>\<open>str.upper\<close> maps to an ASCII letter. On these 257
  characters \<^verbatim>\<open>str.lower\<close>, \<^verbatim>\<open>str.upper\<close> and \<^verbatim>\<open>str.isdigit\<close> are modelled as
  CPython 3.11 computes them: \<^verbatim>\<open>lower\<close> stays within the alphabet; \<^verbatim>\<open>upper\<close> leaves
  it (the micro sign, the sharp s and y with diaeresis) and lengthens the string (the
  sharp s), so its result is a list of code points; \<^verbatim>\<open>isdigit\<close> holds of the ASCII
  digits and of the superscripts one, two and three.
\<close>

datatype pychar = L1 char | DotlessI

type_synonym pystr = "pychar list"

text \<open>A string literal of the source.\<close>

definition str :: "string \<Rightarrow> pystr" where
  "str s = map L1 s"

datatype pyval =
    PNone
  | PBool bool
  | PInt int
  | PStr pystr
  | PList "pyval list"
  | PDict "(pystr \<times> pyval) list"

text \<open>
  The values are those of JSON (numbers with a fraction are left out). A dictionary is
  the list of its items; its keys are distinct, so the first binding of a key is its
  only one.
\<close>

text \<open>\<^verbatim>\<open>type(v).__name__\<close>, as it appears in the text of an AttributeError.\<close>

fun type_name :: "pyval \<Rightarrow> string" where
  "type_name PNone = ''NoneType''"
| "type_name (PBool b) = ''bool''"
| "type_name (PInt i) = ''int''"
| "type_name (PStr s) = ''str''"
| "type_name (PList xs) = ''list''"
| "type_name (PDict kvs) = ''dict''"

text \<open>Truth value of an object, as \<^verbatim>\<open>not device\<close> tests it.\<close>

fun truthy :: "pyval \<Rightarrow> bool" where
  "truthy PNone = False"
| "truthy (PBool b) = b"
| "truthy (PInt i) = (i \<noteq> 0)"
| "truthy (PStr s) = (s \<noteq> [])"
| "truthy (PList xs) = (xs \<noteq> [])"
| "truthy (PDict kvs) = (kvs \<noteq> [])"

text \<open>\<^verbatim>\<open>d.get(key, default)\<close> on the items of a dictionary.\<close>

definition dict_get :: "(pystr \<times> pyval) list \<Rightarrow> pystr \<Rightarrow> pyval \<Rightarrow> pyval" where
  "dict_get kvs k dflt = (case map_of kvs k of None \<Rightarrow> dflt | Some v \<Rightarrow> v)"

text \<open>The text of the AttributeError raised by \<^verbatim>\<open>v.attr\<close> when \<open>v\<close> has no such attribute.\<close>

definition attribute_error :: "pyval \<Rightarrow> string \<Rightarrow> pystr" where
  "attribute_error v attr =
     str ([CHR 0x27] @ type_name v @ [CHR 0x27] @ '' object has no attribute '' @
          [CHR 0x27] @ attr @ [CHR 0x27])"

text \<open>
  \<^verbatim>\<open>str.lower\<close>: the ASCII capitals, and the Latin-1 capitals U+00C0 to U+00DE without
  the multiplication sign U+00D7, move up by 32.
\<close>

fun lower_char :: "pychar \<Rightarrow> pychar" where
  "lower_char (L1 c) =
     (let n = (of_char c :: nat) in
      if (65 \<le> n \<and> n \<le> 90) \<or> (192 \<le> n \<and> n \<le> 222 \<and> n \<noteq> 215)
      then L1 (char_of (n + 32)) else L1 c)"
| "lower_char DotlessI = DotlessI"

definition lower :: "pystr \<Rightarrow> pystr" where
  "lower s = map lower_char s"

text \<open>
  \<^verbatim>\<open>str.upper\<close>, as code points: the ASCII small letters, and the Latin-1 small letters
  U+00E0 to U+00FE without the division sign U+00F7, move down by 32; the micro sign
  becomes U+039C, the sharp s becomes SS, y with diaeresis becomes U+0178, and the dotless
  i becomes the ASCII letter I.
\<close>

fun upper_char :: "pychar \<Rightarrow> nat list" where
  "upper_char (L1 c) =
     (let n = (of_char c :: nat) in
      if (97 \<le> n \<and> n \<le> 122) \<or> (224 \<le> n \<and> n \<le> 254 \<and> n \<noteq> 247) then [n - 32]
      else if n = 181 then [924]
      else if n = 223 then [83, 83]
      else if n = 255 then [376]
      else [n])"
| "upper_char DotlessI = [73]"

definition upper :: "pystr \<Rightarrow> nat list" where
  "upper s = concat (map upper_char s)"

text \<open>The code points of a string literal of the source.\<close>

definition code_points :: "string \<Rightarrow> nat list" where
  "code_points s = map of_char s"

text \<open>\<^verbatim>\<open>str.isascii\<close>.\<close>

fun ascii_char :: "pychar \<Rightarrow> bool" where
  "ascii_char (L1 c) = ((of_char c :: nat) < 128)"
| "ascii_char DotlessI = False"

definition isascii :: "pystr \<Rightarrow> bool" where
  "isascii s = list_all ascii_char s"

text \<open>
  The characters with \<^verbatim>\<open>Numeric_Type\<close> Decimal or Digit, which \<^verbatim>\<open>str.isdigit\<close>
  accepts: the ASCII digits and the superscripts U+00B2, U+00B3 and U+00B9. The decimal
  characters, which \<^verbatim>\<open>float\<close> and \<^verbatim>\<open>int\<close> read, are the ASCII digits alone.
\<close>

fun digit_char :: "pychar \<Rightarrow> bool" where
  "digit_char (L1 c) =
     (let n = (of_char c :: nat) in (48 \<le> n \<and> n \<le> 57) \<or> n = 178 \<or> n = 179 \<or> n = 185)"
| "digit_char DotlessI = False"

fun decimal_char :: "pychar \<Rightarrow> bool" where
  "decimal_char (L1 c) = (let n = (of_char c :: nat) in 48 \<le> n \<and> n \<le> 57)"
| "decimal_char DotlessI = False"

text \<open>\<^verbatim>\<open>s.isdigit()\<close>: at least one character, and every character a digit.\<close>

definition isdigit :: "pystr \<Rightarrow> bool" where
  "isdigit s = (s \<noteq> [] \<and> list_all digit_char s)"

text \<open>The number that a string of decimal characters denotes (leading zeros allowed).\<close>

fun digit_value :: "pychar \<Rightarrow> int" where
  "digit_value (L1 c) = int (of_char c) - 48"
| "digit_value DotlessI = 0"

definition int_of_str :: "pystr \<Rightarrow> int" where
  "int_of_str s = foldl (\<lambda>acc c. 10 * acc + digit_value c) 0 s"

text \<open>\<^verbatim>\<open>str(n)\<close> for an integer: decimal digits, a minus sign when negative.\<close>

fun str_of_nat :: "nat \<Rightarrow> pystr" where
  "str_of_nat n =
     (if n < 10 then [L1 (char_of (48 + n))]
      else str_of_nat (n div 10) @ [L1 (char_of (48 + n mod 10))])"

definition str_of_int :: "int \<Rightarrow> pystr" where
  "str_of_int i =
     (if i < 0 then L1 (CHR ''-'') # str_of_nat (nat (- i)) else str_of_nat (nat i))"

text \<open>
  The handler calls \<^verbatim>\<open>float(temp_str)\<close> only after \<^verbatim>\<open>temp_str.isdigit()\<close>. On such a
  string \<^verbatim>\<open>float\<close> raises a ValueError when a character is not decimal (a
  superscript) and returns otherwise, whatever the length. The value returned is the
  double nearest to the integer denoted; the handler only compares it with 18 and 30,
  and since 17, 18, 30 and 31 are doubles and rounding is monotone, the comparisons have
  the outcome they have on the integer, which is what the model returns. \<open>Inl\<close> carries
  the text of the ValueError, which ends with the \<^verbatim>\<open>repr\<close> of the string: for a
  string that \<^verbatim>\<open>isdigit\<close> accepts that is the string between apostrophes.
\<close>

text \<open>A string between apostrophes, as the message for an invalid fan speed has it too.\<close>

definition quoted :: "pystr \<Rightarrow> pystr" where
  "quoted s = [L1 (CHR 0x27)] @ s @ [L1 (CHR 0x27)]"

definition py_float :: "pystr \<Rightarrow> pystr + int" where
  "py_float s =
     (if s \<noteq> [] \<and> list_all decimal_char s then Inr (int_of_str s)
      else Inl (str ''could not convert string to float: '' @ quoted s))"

text \<open>
  \<^verbatim>\<open>int(temp_str)\<close> is reached with a string of decimal characters. CPython (3.11, default
  settings) refuses a string of more than \<^verbatim>\<open>sys.int_info.default_max_str_digits\<close>, that
  is 4300, digits, leading zeros counted, with a ValueError.
\<close>

definition max_str_digits :: nat where
  "max_str_digits = 4300"

definition py_int :: "pystr \<Rightarrow> pystr + int" where
  "py_int s =
     (if max_str_digits < length s then
        Inl (str ''Exceeds the limit ('' @ str_of_nat max_str_digits @
             str '' digits) for integer string conversion: value has '' @
             str_of_nat (length s) @
             str '' digits; use sys.set_int_max_str_digits() to increase the limit'')
      else Inr (int_of_str s))"

text \<open>\<^verbatim>\<open>sep.join(xs)\<close>.\<close>

fun join :: "pystr \<Rightarrow> pystr list \<Rightarrow> pystr" where
  "join sep [] = []"
| "join sep [x] = x"
| "join sep (x # y # ys) = x @ sep @ join sep (y # ys)"

section \<open>Devices\<close>

datatype FanSpeed = OFF | LOW | MEDIUM | HIGH

text \<open>\<^verbatim>\<open>FanSpeed.__members__\<close>: the member names in declaration order.\<close>

definition FanSpeed_members :: "(string \<times> FanSpeed) list" where
  "FanSpeed_members = [(''OFF'', OFF), (''LOW'', LOW), (''MEDIUM'', MEDIUM), (''HIGH'', HIGH)]"

text \<open>\<^verbatim>\<open>FanSpeed[name]\<close>, the name given by its code points; \<open>None\<close> stands for the KeyError.\<close>

definition FanSpeed_getitem :: "nat list \<Rightarrow> FanSpeed option" where
  "FanSpeed_getitem name =
     map_of (map (\<lambda>(member, sp). (code_points member, sp)) FanSpeed_members) name"

text \<open>\<^verbatim>\<open>speed.value\<close>.\<close>

fun FanSpeed_value :: "FanSpeed \<Rightarrow> pystr" where
  "FanSpeed_value OFF = str ''off''"
| "FanSpeed_value LOW = str ''low''"
| "FanSpeed_value MEDIUM = str ''medium''"
| "FanSpeed_value HIGH = str ''high''"

record Light =
  state :: bool

record Fan =
  speed :: FanSpeed

record Thermostat =
  temperature :: int
  state :: bool

record SmartHome =
  light :: Light
  fan :: Fan
  thermostat :: Thermostat

text \<open>\<^verbatim>\<open>SmartHome.__init__\<close>: the dataclass defaults.\<close>

definition SmartHome_init :: SmartHome where
  "SmartHome_init =
     \<lparr>light = \<lparr>Light.state = False\<rparr>,
      fan = \<lparr>speed = OFF\<rparr>,
      thermostat = \<lparr>temperature = 22, Thermostat.state = False\<rparr>\<rparr>"

definition on_off :: "bool \<Rightarrow> pystr" where
  "on_off b = (if b then str ''ON'' else str ''OFF'')"

text \<open>The degree sign U+00B0 of the thermostat messages.\<close>

definition degree :: pystr where
  "degree = [L1 (CHR 0xB0)]"

text \<open>\<^verbatim>\<open>SmartHome.get_status\<close>: the items of the returned dictionary, in order.\<close>

definition get_status :: "SmartHome \<Rightarrow> (pystr \<times> pystr) list" where
  "get_status home =
     [(str ''light'', on_off (Light.state (light home))),
      (str ''fan'', FanSpeed_value (speed (fan home))),
      (str ''thermostat'',
         str_of_int (temperature (thermostat home)) @ degree @ str ''C ('' @
         on_off (Thermostat.state (thermostat home)) @ str '')'')]"

section \<open>The action handler\<close>

text \<open>
  One pass through the body of the \<^verbatim>\<open>for\<close> loop of \<^verbatim>\<open>handle_command\<close>,
  inside the \<^verbatim>\<open>try\<close>: it appends one response, appends none, or raises; \<open>Raised\<close>
  carries \<^verbatim>\<open>str(e)\<close>. The state returned with \<open>Raised\<close> is the state at the moment of
  the raise. The \<^verbatim>\<open>KeyError\<close> of the enumeration lookup is caught at once by the inner
  \<^verbatim>\<open>try\<close>, so the lookup is modelled by an option.
\<close>

datatype step_result = Appended pystr | Silent | Raised pystr

definition newline :: pystr where
  "newline = [L1 (CHR 0x0A)]"

definition status_text :: "SmartHome \<Rightarrow> pystr" where
  "status_text home = join newline (map (\<lambda>(k, v). k @ str '': '' @ v) (get_status home))"

definition invalid_fan_speed :: "pystr \<Rightarrow> pystr" where
  "invalid_fan_speed speed_str =
     str ''Error: Invalid fan speed '' @ quoted speed_str @
     str ''. Valid speeds are: '' @ join (str '', '') (map (str \<circ> fst) FanSpeed_members)"

fun loop_body :: "SmartHome \<Rightarrow> pyval \<Rightarrow> SmartHome \<times> step_result" where
  "loop_body home (PDict parsed) =
     (let device = dict_get parsed (str ''device'') PNone;
          action = dict_get parsed (str ''action'') PNone
      in
      if \<not> truthy device \<and> action \<noteq> PStr (str ''get_status'') then
        (home, Appended (str ''Error: Could not understand the command.''))
      else if action = PStr (str ''get_status'') then
        (home, Appended (status_text home))
      else if device = PStr (str ''light'') then
        (if action = PStr (str ''turn_on'') then
           (home\<lparr>light := (light home)\<lparr>Light.state := True\<rparr>\<rparr>,
            Appended (str ''Light is now ON''))
         else if action = PStr (str ''turn_off'') then
           (home\<lparr>light := (light home)\<lparr>Light.state := False\<rparr>\<rparr>,
            Appended (str ''Light is now OFF''))
         else (home, Silent))
      else if device = PStr (str ''fan'') then
        (if action = PStr (str ''set'') then
           (case dict_get parsed (str ''param'') (PStr []) of
              PStr p \<Rightarrow>
                (let speed_str = lower p in
                 case FanSpeed_getitem (upper speed_str) of
                   Some sp \<Rightarrow>
                     (home\<lparr>fan := (fan home)\<lparr>speed := sp\<rparr>\<rparr>,
                      Appended (str ''Fan speed set to '' @ speed_str))
                 | None \<Rightarrow> (home, Appended (invalid_fan_speed speed_str)))
            | v \<Rightarrow> (home, Raised (attribute_error v ''lower'')))
         else if action = PStr (str ''turn_on'') then
           (home\<lparr>fan := (fan home)\<lparr>speed := LOW\<rparr>\<rparr>,
            Appended (str ''Fan is now ON (set to low)''))
         else if action = PStr (str ''turn_off'') then
           (home\<lparr>fan := (fan home)\<lparr>speed := OFF\<rparr>\<rparr>, Appended (str ''Fan is now OFF''))
         else (home, Silent))
      else if device = PStr (str ''thermostat'') then
        (if action = PStr (str ''set'') then
           (case dict_get parsed (str ''param'') PNone of
              PNone \<Rightarrow> (home, Appended (str ''Error: Invalid temperature value.''))
            | PStr temp_str \<Rightarrow>
                (if isdigit temp_str then
                   (case py_float temp_str of
                      Inl e \<Rightarrow> (home, Raised e)
                    | Inr temp_float \<Rightarrow>
                        (if 18 \<le> temp_float \<and> temp_float \<le> 30 then
                           (case py_int temp_str of
                              Inl e \<Rightarrow> (home, Raised e)
                            | Inr temp \<Rightarrow>
                                (home\<lparr>thermostat :=
                                   (thermostat home)
                                     \<lparr>temperature := temp, Thermostat.state := True\<rparr>\<rparr>,
                                 Appended (str ''Thermostat set to '' @ str_of_int temp @
                                           degree @ str ''C'')))
                         else (home, Appended (str ''Error: Temperature Out Of Range.''))))
                 else (home, Appended (str ''Error: Invalid temperature value.'')))
            | v \<Rightarrow> (home, Raised (attribute_error v ''isdigit'')))
         else (home, Silent))
      else (home, Silent))"
| "loop_body home v = (home, Raised (attribute_error v ''get''))"

text \<open>
  The loop with its \<^verbatim>\<open>except Exception\<close> handler: an exception raised by the
  body becomes a response, and the loop goes on with the next instruction.
\<close>

fun handle_loop :: "SmartHome \<Rightarrow> pyval list \<Rightarrow> pystr list \<Rightarrow> SmartHome \<times> pystr list" where
  "handle_loop home [] responses = (home, responses)"
| "handle_loop home (parsed # rest) responses =
     (case loop_body home parsed of
        (home', Appended msg) \<Rightarrow> handle_loop home' rest (responses @ [msg])
      | (home', Silent) \<Rightarrow> handle_loop home' rest responses
      | (home', Raised e) \<Rightarrow>
          handle_loop home' rest (responses @ [str ''Error processing command: '' @ e]))"

text \<open>\<^verbatim>\<open>handle_command\<close>: the state it leaves and the string it returns.\<close>

definition handle_command :: "SmartHome \<Rightarrow> pyval list \<Rightarrow> SmartHome \<times> pystr" where
  "handle_command home parsed_commands =
     (case handle_loop home parsed_commands [] of
        (home', responses) \<Rightarrow> (home', join newline responses))"

section \<open>Action requests\<close>

text \<open>
  The specification speaks of tagged action requests. The handler receives them as
  dictionaries, in the shape the dummy parser of \<^verbatim>\<open>CommandParser.parse_command\<close>
  builds and the prompt of the language model asks for: keys \<^verbatim>\<open>action\<close>,
  \<^verbatim>\<open>device\<close>, \<^verbatim>\<open>param\<close>, and \<^verbatim>\<open>{"action": "unknown", "command": text}\<close>
  for a command that was not understood.
\<close>

datatype DeviceKind = LightKind | FanKind | ThermostatKind

fun device_name :: "DeviceKind \<Rightarrow> string" where
  "device_name LightKind = ''light''"
| "device_name FanKind = ''fan''"
| "device_name ThermostatKind = ''thermostat''"

datatype ActionRequest =
    TurnOn DeviceKind
  | TurnOff DeviceKind
  | SetParam DeviceKind pystr
  | GetStatus
  | Unrecognized pystr

fun encode :: "ActionRequest \<Rightarrow> pyval" where
  "encode (TurnOn d) =
     PDict [(str ''action'', PStr (str ''turn_on'')), (str ''device'', PStr (str (device_name d)))]"
| "encode (TurnOff d) =
     PDict [(str ''action'', PStr (str ''turn_off'')), (str ''device'', PStr (str (device_name d)))]"
| "encode (SetParam d p) =
     PDict [(str ''action'', PStr (str ''set'')), (str ''device'', PStr (str (device_name d))),
            (str ''param'', PStr p)]"
| "encode GetStatus = PDict [(str ''action'', PStr (str ''get_status''))]"
| "encode (Unrecognized text) =
     PDict [(str ''action'', PStr (str ''unknown'')), (str ''command'', PStr text)]"

text \<open>The responses collected for a batch, before they are joined, and the state left.\<close>

definition responses_of :: "SmartHome \<Rightarrow> pyval list \<Rightarrow> pystr list" where
  "responses_of home parsed_commands = snd (handle_loop home parsed_commands [])"

definition state_after :: "SmartHome \<Rightarrow> pyval list \<Rightarrow> SmartHome" where
  "state_after home parsed_commands = fst (handle_loop home parsed_commands [])"

section \<open>Notions used by the properties\<close>

text \<open>
  What one pass through the loop adds to \<^verbatim>\<open>responses\<close>, the handler of the
  \<^verbatim>\<open>except\<close> clause included.
\<close>

fun appended :: "step_result \<Rightarrow> pystr list" where
  "appended (Appended msg) = [msg]"
| "appended Silent = []"
| "appended (Raised e) = [str ''Error processing command: '' @ e]"

text \<open>
  The handler has no error type: a failure is a response that begins with
  \<^verbatim>\<open>Error\<close>. The specification's kinds are told apart by the text:
  \<^verbatim>\<open>Error: Could not understand the command.\<close> (no device),
  \<^verbatim>\<open>Error: Invalid fan speed ...\<close> and \<^verbatim>\<open>Error: Invalid temperature value.\<close>
  (invalid parameter), \<^verbatim>\<open>Error: Temperature Out Of Range.\<close> (out of range) and
  \<^verbatim>\<open>Error processing command: ...\<close> (a caught exception).
\<close>

definition is_error :: "pystr \<Rightarrow> bool" where
  "is_error msg = prefix (str ''Error'') msg"

definition fails :: "SmartHome \<Rightarrow> pyval \<Rightarrow> bool" where
  "fails home parsed = list_ex is_error (appended (snd (loop_body home parsed)))"

definition temperature_ok :: "SmartHome \<Rightarrow> bool" where
  "temperature_ok home =
     (18 \<le> temperature (thermostat home) \<and> temperature (thermostat home) \<le> 30)"

text \<open>
  A session, as the loop of \<^verbatim>\<open>main\<close> runs it: one home, and one call of
  \<^verbatim>\<open>handle_command\<close> for each command entered.
\<close>

definition run_session :: "SmartHome \<Rightarrow> pyval list list \<Rightarrow> SmartHome" where
  "run_session home batches = foldl (\<lambda>h batch. fst (handle_command h batch)) home batches"

text \<open>The outcome of a thermostat setting that is accepted: the new state and the response.\<close>

definition thermostat_accepts :: "SmartHome \<Rightarrow> int \<Rightarrow> SmartHome \<times> step_result" where
  "thermostat_accepts home temp =
     (home\<lparr>thermostat := (thermostat home)\<lparr>temperature := temp, Thermostat.state := True\<rparr>\<rparr>,
      Appended (str ''Thermostat set to '' @ str_of_int temp @ degree @ str ''C''))"

text \<open>The outcome of a fan setting that is accepted.\<close>

definition fan_accepts :: "SmartHome \<Rightarrow> FanSpeed \<Rightarrow> pystr \<Rightarrow> SmartHome \<times> step_result" where
  "fan_accepts home sp speed_str =
     (home\<lparr>fan := (fan home)\<lparr>speed := sp\<rparr>\<rparr>, Appended (str ''Fan speed set to '' @ speed_str))"


definition superscript_24 :: pystr where
  "superscript_24 = [L1 (CHR 0xB2), L1 (CHR ''4'')]"

definition high_dotless :: pystr where
  "high_dotless = [L1 (CHR ''h''), DotlessI, L1 (CHR ''g''), L1 (CHR ''h'')]"

section \<open>Strings: digits and letter case\<close>

declare str_of_nat.simps [simp del]

lemma of_char_digit: "(n::nat) < 10 \<Longrightarrow> (of_char (char_of (48 + n)) :: nat) = 48 + n"
  by (simp add: of_char_of)









lemma int_of_str_snoc: "int_of_str (s @ [c]) = 10 * int_of_str s + digit_value c"
  by (simp add: int_of_str_def)

lemma int_of_str_str_of_nat: "int_of_str (str_of_nat n) = int n"
proof (induction n rule: str_of_nat.induct)
  case (1 n)
  show ?case
  proof (cases "n < 10")
    case True
    then show ?thesis
      by (subst str_of_nat.simps) (simp add: int_of_str_def of_char_of)
  next
    case False
    have "n mod 10 < 10" by simp
    then have d: "(of_char (char_of (48 + n mod 10)) :: nat) = 48 + n mod 10"
      by (rule of_char_digit)
    from False 1 have ih: "int_of_str (str_of_nat (n div 10)) = int (n div 10)"
      by simp
    have "int n = int (10 * (n div 10) + n mod 10)"
      by simp
    also have "\<dots> = 10 * int (n div 10) + int (n mod 10)"
      by (simp only: of_nat_add of_nat_mult of_nat_numeral)
    finally have split: "10 * int (n div 10) + int (n mod 10) = int n"
      by simp
    from False show ?thesis
      by (subst str_of_nat.simps) (simp add: int_of_str_snoc ih d split)
  qed
qed





text \<open>On ASCII text, lower-casing and then upper-casing a character gives one code point.\<close>

lemma ascii_lower_char: "ascii_char x \<Longrightarrow> ascii_char (lower_char x)"
proof (cases x)
  case (L1 c)
  assume "ascii_char x"
  with L1 have n: "(of_char c :: nat) < 128" by simp
  then have "(of_char c :: nat) + 32 < 256 \<and> (of_char c + 32) mod 256 < (128 :: nat) \<or>
             \<not> (65 \<le> (of_char c :: nat) \<and> (of_char c :: nat) \<le> 90)"
    by arith
  with n L1 show ?thesis
    by (auto simp: Let_def of_char_of)
qed simp

lemma upper_lower_ascii_char:
  assumes "ascii_char x" and "97 \<le> m" and "m \<le> 122"
  shows "upper_char (lower_char x) = [m - 32] \<longleftrightarrow> lower_char x = L1 (char_of m)"
    and "length (upper_char (lower_char x)) = 1"
proof -
  from assms(1) obtain c where x: "x = L1 c" and n: "(of_char c :: nat) < 128"
    by (cases x) simp_all
  define n' :: nat where "n' = (if 65 \<le> (of_char c :: nat) \<and> (of_char c :: nat) \<le> 90
                                then of_char c + 32 else of_char c)"
  have low: "lower_char x = L1 (char_of n')"
    using n unfolding x n'_def by (simp add: Let_def)
  have n'_small: "n' < 128" and n'_not_upper: "\<not> (65 \<le> n' \<and> n' \<le> 90)"
    using n unfolding n'_def by (simp_all split: if_splits)
  then have oc: "(of_char (char_of n' :: char) :: nat) = n'"
    by (simp add: of_char_of)
  have up: "upper_char (L1 (char_of n')) = (if 97 \<le> n' \<and> n' \<le> 122 then [n' - 32] else [n'])"
    using n'_small by (simp add: Let_def oc)
  show "length (upper_char (lower_char x)) = 1"
    by (simp only: low up) simp
  have "upper_char (L1 (char_of n')) = [m - 32] \<longleftrightarrow> n' = m"
    using assms(2,3) n'_not_upper unfolding up by (simp split: if_splits) arith
  also have "n' = m \<longleftrightarrow> (char_of n' :: char) = char_of m"
    using n'_small assms(3) by (simp add: char_of_eq_iff take_bit_eq_mod)
  finally show "upper_char (lower_char x) = [m - 32] \<longleftrightarrow> lower_char x = L1 (char_of m)"
    by (simp only: low pychar.inject)
qed

lemma upper_lower_ascii_iff:
  assumes "isascii p" and "list_all (\<lambda>m. 97 \<le> m \<and> m \<le> 122) ms"
  shows "upper (lower p) = map (\<lambda>m. m - 32) ms \<longleftrightarrow> lower p = map (\<lambda>m. L1 (char_of m)) ms"
  using assms
proof (induction p arbitrary: ms)
  case Nil
  then show ?case by (simp add: upper_def lower_def)
next
  case (Cons x xs)
  from Cons.prems(1) have ax: "ascii_char x" and axs: "isascii xs"
    by (simp_all add: isascii_def)
  from ax obtain k where k: "upper_char (lower_char x) = [k]"
    using upper_lower_ascii_char(2) [of x 97] by (cases "upper_char (lower_char x)") simp_all
  have split: "upper (lower (x # xs)) = k # upper (lower xs)"
    by (simp add: upper_def lower_def k)
  show ?case
  proof (cases ms)
    case Nil
    have "lower (x # xs) \<noteq> []"
      by (simp add: lower_def)
    with Nil show ?thesis
      by (simp only: split) simp
  next
    case (Cons m ms')
    with Cons.prems(2) have m: "97 \<le> m" "m \<le> 122" and ms': "list_all (\<lambda>m. 97 \<le> m \<and> m \<le> 122) ms'"
      by simp_all
    have head: "k = m - 32 \<longleftrightarrow> lower_char x = L1 (char_of m)"
      using upper_lower_ascii_char(1) [OF ax m] by (simp add: k)
    have tail: "upper (lower xs) = map (\<lambda>m. m - 32) ms' \<longleftrightarrow> lower xs = map (\<lambda>m. L1 (char_of m)) ms'"
      using axs ms' by (rule Cons.IH)
    have l: "lower (x # xs) = lower_char x # lower xs"
      by (simp add: lower_def)
    have u: "upper (lower_char x # lower xs) = k # upper (lower xs)"
      by (simp add: upper_def k)
    show ?thesis
      by (simp only: Cons l u list.map list.inject head tail)
  qed
qed

lemma FanSpeed_getitem_code_points:
  "FanSpeed_getitem cs =
     (if cs = code_points ''OFF'' then Some OFF
      else if cs = code_points ''LOW'' then Some LOW
      else if cs = code_points ''MEDIUM'' then Some MEDIUM
      else if cs = code_points ''HIGH'' then Some HIGH
      else None)"
  by (simp add: FanSpeed_getitem_def FanSpeed_members_def)

lemma FanSpeed_getitem_ascii:
  assumes "isascii p"
  shows "FanSpeed_getitem (upper (lower p)) =
     (if lower p = str ''off'' then Some OFF
      else if lower p = str ''low'' then Some LOW
      else if lower p = str ''medium'' then Some MEDIUM
      else if lower p = str ''high'' then Some HIGH
      else None)"
proof -
  have off: "upper (lower p) = code_points ''OFF'' \<longleftrightarrow> lower p = str ''off''"
  proof -
    have u: "map (\<lambda>m. m - 32) [111, 102, 102 :: nat] = code_points ''OFF''"
      by code_simp
    have l: "map (\<lambda>m. L1 (char_of m)) [111, 102, 102 :: nat] = str ''off''"
      by code_simp
    have "list_all (\<lambda>m. 97 \<le> m \<and> m \<le> 122) [111, 102, 102 :: nat]"
      by simp
    with assms have "upper (lower p) = map (\<lambda>m. m - 32) [111, 102, 102 :: nat] \<longleftrightarrow>
        lower p = map (\<lambda>m. L1 (char_of m)) [111, 102, 102 :: nat]"
      by (rule upper_lower_ascii_iff)
    then show ?thesis by (simp only: u l)
  qed
  have low: "upper (lower p) = code_points ''LOW'' \<longleftrightarrow> lower p = str ''low''"
  proof -
    have u: "map (\<lambda>m. m - 32) [108, 111, 119 :: nat] = code_points ''LOW''"
      by code_simp
    have l: "map (\<lambda>m. L1 (char_of m)) [108, 111, 119 :: nat] = str ''low''"
      by code_simp
    have "list_all (\<lambda>m. 97 \<le> m \<and> m \<le> 122) [108, 111, 119 :: nat]"
      by simp
    with assms have "upper (lower p) = map (\<lambda>m. m - 32) [108, 111, 119 :: nat] \<longleftrightarrow>
        lower p = map (\<lambda>m. L1 (char_of m)) [108, 111, 119 :: nat]"
      by (rule upper_lower_ascii_iff)
    then show ?thesis by (simp only: u l)
  qed
  have medium: "upper (lower p) = code_points ''MEDIUM'' \<longleftrightarrow> lower p = str ''medium''"
  proof -
    have u: "map (\<lambda>m. m - 32) [109, 101, 100, 105, 117, 109 :: nat] = code_points ''MEDIUM''"
      by code_simp
    have l: "map (\<lambda>m. L1 (char_of m)) [109, 101, 100, 105, 117, 109 :: nat] = str ''medium''"
      by code_simp
    have "list_all (\<lambda>m. 97 \<le> m \<and> m \<le> 122) [109, 101, 100, 105, 117, 109 :: nat]"
      by simp
    with assms have "upper (lower p) = map (\<lambda>m. m - 32) [109, 101, 100, 105, 117, 109 :: nat] \<longleftrightarrow>
        lower p = map (\<lambda>m. L1 (char_of m)) [109, 101, 100, 105, 117, 109 :: nat]"
      by (rule upper_lower_ascii_iff)
    then show ?thesis by (simp only: u l)
  qed
  have high: "upper (lower p) = code_points ''HIGH'' \<longleftrightarrow> lower p = str ''high''"
  proof -
    have u: "map (\<lambda>m. m - 32) [104, 105, 103, 104 :: nat] = code_points ''HIGH''"
      by code_simp
    have l: "map (\<lambda>m. L1 (char_of m)) [104, 105, 103, 104 :: nat] = str ''high''"
      by code_simp
    have "list_all (\<lambda>m. 97 \<le> m \<and> m \<le> 122) [104, 105, 103, 104 :: nat]"
      by simp
    with assms have "upper (lower p) = map (\<lambda>m. m - 32) [104, 105, 103, 104 :: nat] \<longleftrightarrow>
        lower p = map (\<lambda>m. L1 (char_of m)) [104, 105, 103, 104 :: nat]"
      by (rule upper_lower_ascii_iff)
    then show ?thesis by (simp only: u l)
  qed
  show ?thesis
    by (simp only: FanSpeed_getitem_code_points off low medium high)
qed

section \<open>The loop\<close>

section \<open>The loop\<close>

lemma handle_loop_step:
  "handle_loop home (parsed # rest) responses =
     handle_loop (fst (loop_body home parsed)) rest (responses @ appended (snd (loop_body home parsed)))"
  by (cases "loop_body home parsed"; cases "snd (loop_body home parsed)") simp_all

lemma handle_loop_acc:
  "handle_loop home cmds responses =
     (state_after home cmds, responses @ responses_of home cmds)"
proof (induction cmds arbitrary: home responses)
  case Nil
  then show ?case by (simp add: state_after_def responses_of_def)
next
  case (Cons parsed rest)
  have "handle_loop home (parsed # rest) responses =
          (state_after (fst (loop_body home parsed)) rest,
           (responses @ appended (snd (loop_body home parsed))) @
             responses_of (fst (loop_body home parsed)) rest)"
    by (simp only: handle_loop_step Cons.IH)
  moreover have "handle_loop home (parsed # rest) [] =
          (state_after (fst (loop_body home parsed)) rest,
           ([] @ appended (snd (loop_body home parsed))) @
             responses_of (fst (loop_body home parsed)) rest)"
    by (simp only: handle_loop_step Cons.IH)
  ultimately show ?case
    by (simp add: state_after_def responses_of_def)
qed

lemma state_after_Nil: "state_after home [] = home"
  by (simp add: state_after_def)

lemma responses_of_Nil: "responses_of home [] = []"
  by (simp add: responses_of_def)

lemma state_after_Cons:
  "state_after home (parsed # rest) = state_after (fst (loop_body home parsed)) rest"
proof -
  have "state_after home (parsed # rest) =
          fst (handle_loop (fst (loop_body home parsed)) rest
                 ([] @ appended (snd (loop_body home parsed))))"
    by (simp only: state_after_def handle_loop_step)
  also have "\<dots> = state_after (fst (loop_body home parsed)) rest"
    by (simp only: handle_loop_acc fst_conv)
  finally show ?thesis .
qed

lemma responses_of_Cons:
  "responses_of home (parsed # rest) =
     appended (snd (loop_body home parsed)) @ responses_of (fst (loop_body home parsed)) rest"
proof -
  have "responses_of home (parsed # rest) =
          snd (handle_loop (fst (loop_body home parsed)) rest
                 ([] @ appended (snd (loop_body home parsed))))"
    by (simp only: responses_of_def handle_loop_step)
  also have "\<dots> = appended (snd (loop_body home parsed)) @
                      responses_of (fst (loop_body home parsed)) rest"
    by (simp only: handle_loop_acc snd_conv append_Nil)
  finally show ?thesis .
qed

lemma state_after_append:
  "state_after home (xs @ ys) = state_after (state_after home xs) ys"
  by (induction xs arbitrary: home) (simp_all add: state_after_Nil state_after_Cons)

lemma responses_of_append:
  "responses_of home (xs @ ys) = responses_of home xs @ responses_of (state_after home xs) ys"
  by (induction xs arbitrary: home)
     (simp_all add: state_after_Nil state_after_Cons responses_of_Nil responses_of_Cons)

lemma length_appended: "length (appended r) \<le> 1"
  by (cases r) simp_all

lemma length_responses_of: "length (responses_of home cmds) \<le> length cmds"
proof (induction cmds arbitrary: home)
  case Nil
  then show ?case by (simp add: responses_of_Nil)
next
  case (Cons parsed rest)
  have "length (appended (snd (loop_body home parsed))) \<le> 1"
    by (rule length_appended)
  moreover have "length (responses_of (fst (loop_body home parsed)) rest) \<le> length rest"
    by (rule Cons.IH)
  ultimately show ?case
    by (simp add: responses_of_Cons)
qed

lemma str_eq_iff: "str a = str b \<longleftrightarrow> a = b"
  by (simp add: str_def inj_map_eq_map inj_def)

lemma str_Nil: "str [] = []"
  by (simp add: str_def)

lemma str_eq_Nil_iff: "str s = [] \<longleftrightarrow> s = []"
  by (simp add: str_def)

section \<open>Thermostat settings\<close>









lemma thermostat_accepts_no_error:
  "\<not> list_ex is_error (appended (snd (thermostat_accepts home temp)))"
  by (simp add: thermostat_accepts_def is_error_def str_def)










section \<open>Fan settings\<close>

lemma loop_body_fan_set:
  "loop_body home (encode (SetParam FanKind p)) =
     (case FanSpeed_getitem (upper (lower p)) of
        Some sp \<Rightarrow> fan_accepts home sp (lower p)
      | None \<Rightarrow> (home, Appended (invalid_fan_speed (lower p))))"
  by (simp add: dict_get_def fan_accepts_def Let_def str_eq_iff str_eq_Nil_iff
      split: option.split)

lemma loop_body_fan_set_missing:
  "loop_body home
     (PDict [(str ''action'', PStr (str ''set'')), (str ''device'', PStr (str ''fan''))]) =
     (home, Appended (invalid_fan_speed []))"
proof -
  have "FanSpeed_getitem (upper (lower [])) = None"
    by code_simp
  moreover have "lower [] = []"
    by (simp add: lower_def)
  ultimately show ?thesis
    by (simp add: dict_get_def Let_def str_eq_iff str_eq_Nil_iff)
qed

lemma is_error_invalid_fan_speed: "is_error (invalid_fan_speed s)"
  by (simp add: is_error_def invalid_fan_speed_def str_def)

lemma invalid_fan_speed_text:
  "invalid_fan_speed s =
     str ''Error: Invalid fan speed '' @ [L1 (CHR 0x27)] @ s @ [L1 (CHR 0x27)] @
     str ''. Valid speeds are: OFF, LOW, MEDIUM, HIGH''"
  by (simp add: invalid_fan_speed_def FanSpeed_members_def quoted_def str_def)

lemma fan_accepts_no_error: "\<not> list_ex is_error (appended (snd (fan_accepts home sp s)))"
  by (simp add: fan_accepts_def is_error_def str_def)

lemma loop_body_fan_set_ascii:
  assumes "isascii p"
  shows "loop_body home (encode (SetParam FanKind p)) =
     (if lower p = str ''off'' then fan_accepts home OFF (str ''off'')
      else if lower p = str ''low'' then fan_accepts home LOW (str ''low'')
      else if lower p = str ''medium'' then fan_accepts home MEDIUM (str ''medium'')
      else if lower p = str ''high'' then fan_accepts home HIGH (str ''high'')
      else (home, Appended (invalid_fan_speed (lower p))))"
  by (simp only: loop_body_fan_set FanSpeed_getitem_ascii [OF assms]) simp

text \<open>
  Claim C6, as stated: the parameter of a fan \<^verbatim>\<open>set\<close> request is matched without
  regard to case against exactly the four names \<^verbatim>\<open>off\<close>, \<^verbatim>\<open>low\<close>,
  \<^verbatim>\<open>medium\<close>, \<^verbatim>\<open>high\<close>, and any other parameter fails. The parameter
  \<^verbatim>\<open>h\<close>, dotless i, \<^verbatim>\<open>g\<close>, \<^verbatim>\<open>h\<close> is none of the four names in lower case,
  yet \<^verbatim>\<open>upper\<close> maps the dotless i to \<^verbatim>\<open>I\<close>: the request is accepted and the
  speed becomes \<open>HIGH\<close>.
\<close>

theorem fan_dotless_i_accepted:
  "lower high_dotless \<noteq> str ''off''
   \<and> lower high_dotless \<noteq> str ''low''
   \<and> lower high_dotless \<noteq> str ''medium''
   \<and> lower high_dotless \<noteq> str ''high''
   \<and> loop_body SmartHome_init (encode (SetParam FanKind high_dotless)) =
       (SmartHome_init\<lparr>fan := \<lparr>speed = HIGH\<rparr>\<rparr>,
        Appended (str ''Fan speed set to '' @ high_dotless))
   \<and> \<not> fails SmartHome_init (encode (SetParam FanKind high_dotless))"
proof -
  have l: "lower high_dotless = high_dotless"
    by code_simp
  have ne: "high_dotless \<noteq> str ''off''" "high_dotless \<noteq> str ''low''"
    "high_dotless \<noteq> str ''medium''" "high_dotless \<noteq> str ''high''"
    by (simp_all add: high_dotless_def str_def)
  have g: "FanSpeed_getitem (upper high_dotless) = Some HIGH"
    by code_simp
  have lb: "loop_body SmartHome_init (encode (SetParam FanKind high_dotless)) =
       (SmartHome_init\<lparr>fan := \<lparr>speed = HIGH\<rparr>\<rparr>,
        Appended (str ''Fan speed set to '' @ high_dotless))"
    by (simp only: loop_body_fan_set l g) (simp add: fan_accepts_def SmartHome_init_def)
  have nf: "\<not> fails SmartHome_init (encode (SetParam FanKind high_dotless))"
    by (simp only: fails_def lb) (simp add: is_error_def str_def)
  from ne lb nf show ?thesis
    by (simp only: l) simp
qed

text \<open>
  Claim C6, amended. For a parameter of ASCII characters a fan \<^verbatim>\<open>set\<close> request is
  decided by the lower-cased parameter alone: when it is one of \<^verbatim>\<open>off\<close>,
  \<^verbatim>\<open>low\<close>, \<^verbatim>\<open>medium\<close>, \<^verbatim>\<open>high\<close> the fan's speed becomes the member of that
  name and the response reports it; on every other ASCII parameter the state is unchanged
  and the response is the error \<^verbatim>\<open>Error: Invalid fan speed ...\<close>. So \<^verbatim>\<open>HIGH\<close>
  and \<^verbatim>\<open>high\<close> both set the speed to \<open>HIGH\<close>, and \<^verbatim>\<open>fast\<close> fails.
\<close>

theorem fan_set_domain:
  "(isascii p \<longrightarrow>
      loop_body home (encode (SetParam FanKind p)) =
        (if lower p = str ''off'' then fan_accepts home OFF (str ''off'')
         else if lower p = str ''low'' then fan_accepts home LOW (str ''low'')
         else if lower p = str ''medium'' then fan_accepts home MEDIUM (str ''medium'')
         else if lower p = str ''high'' then fan_accepts home HIGH (str ''high'')
         else (home, Appended (invalid_fan_speed (lower p)))))
   \<and> loop_body home (encode (SetParam FanKind (str ''HIGH''))) = fan_accepts home HIGH (str ''high'')
   \<and> loop_body home (encode (SetParam FanKind (str ''high''))) = fan_accepts home HIGH (str ''high'')
   \<and> loop_body home (encode (SetParam FanKind (str ''fast''))) =
       (home, Appended (invalid_fan_speed (str ''fast'')))
   \<and> is_error (invalid_fan_speed (lower p))
   \<and> \<not> fails home (encode (SetParam FanKind (str ''HIGH'')))
   \<and> fails home (encode (SetParam FanKind (str ''fast'')))"
proof -
  have a: "isascii (str ''HIGH'')" "isascii (str ''high'')" "isascii (str ''fast'')"
    by code_simp+
  have l: "lower (str ''HIGH'') = str ''high''" "lower (str ''high'') = str ''high''"
    "lower (str ''fast'') = str ''fast''"
    by code_simp+
  have upper_case: "loop_body home (encode (SetParam FanKind (str ''HIGH''))) =
      fan_accepts home HIGH (str ''high'')"
    by (simp only: loop_body_fan_set_ascii [OF a(1)] l) (simp add: str_eq_iff)
  have lower_case: "loop_body home (encode (SetParam FanKind (str ''high''))) =
      fan_accepts home HIGH (str ''high'')"
    by (simp only: loop_body_fan_set_ascii [OF a(2)] l) (simp add: str_eq_iff)
  have fast: "loop_body home (encode (SetParam FanKind (str ''fast''))) =
       (home, Appended (invalid_fan_speed (str ''fast'')))"
    by (simp only: loop_body_fan_set_ascii [OF a(3)] l) (simp add: str_eq_iff)
  have ok: "\<not> fails home (encode (SetParam FanKind (str ''HIGH'')))"
    by (simp only: fails_def upper_case fan_accepts_no_error) simp
  have bad: "fails home (encode (SetParam FanKind (str ''fast'')))"
    by (simp only: fails_def fast) (simp add: is_error_invalid_fan_speed)
  have general: "isascii p \<longrightarrow>
      loop_body home (encode (SetParam FanKind p)) =
        (if lower p = str ''off'' then fan_accepts home OFF (str ''off'')
         else if lower p = str ''low'' then fan_accepts home LOW (str ''low'')
         else if lower p = str ''medium'' then fan_accepts home MEDIUM (str ''medium'')
         else if lower p = str ''high'' then fan_accepts home HIGH (str ''high'')
         else (home, Appended (invalid_fan_speed (lower p))))"
    using loop_body_fan_set_ascii [of p home] by blast
  from general upper_case lower_case fast is_error_invalid_fan_speed [of "lower p"] ok bad
  show ?thesis by (intro conjI)
qed

theorem fan_set_domain_witness:
  "isascii (str ''MeDiUm'')
   \<and> loop_body SmartHome_init (encode (SetParam FanKind (str ''MeDiUm''))) =
     (SmartHome_init\<lparr>fan := \<lparr>speed = MEDIUM\<rparr>\<rparr>, Appended (str ''Fan speed set to medium''))
   \<and> isascii (str ''hi'')
   \<and> loop_body SmartHome_init (encode (SetParam FanKind (str ''hi''))) =
     (SmartHome_init,
      Appended (str ''Error: Invalid fan speed '' @ [L1 (CHR 0x27)] @ str ''hi'' @ [L1 (CHR 0x27)] @
        str ''. Valid speeds are: OFF, LOW, MEDIUM, HIGH''))
   \<and> speed (fan (fst (loop_body SmartHome_init (encode (SetParam FanKind (str ''HIGH'')))))) = HIGH
   \<and> speed (fan (fst (loop_body SmartHome_init (encode (SetParam FanKind (str ''fast'')))))) = OFF"
proof -
  have a: "isascii (str ''MeDiUm'')" "isascii (str ''hi'')"
    by code_simp+
  have l: "lower (str ''MeDiUm'') = str ''medium''" "lower (str ''hi'') = str ''hi''"
    by code_simp+
  have m: "loop_body SmartHome_init (encode (SetParam FanKind (str ''MeDiUm''))) =
     (SmartHome_init\<lparr>fan := \<lparr>speed = MEDIUM\<rparr>\<rparr>, Appended (str ''Fan speed set to medium''))"
    using fan_set_domain [THEN conjunct1, of "str ''MeDiUm''" SmartHome_init] a(1)
    by (simp add: l fan_accepts_def SmartHome_init_def str_eq_iff) (simp add: str_def)
  have h: "loop_body SmartHome_init (encode (SetParam FanKind (str ''hi''))) =
     (SmartHome_init,
      Appended (str ''Error: Invalid fan speed '' @ [L1 (CHR 0x27)] @ str ''hi'' @ [L1 (CHR 0x27)] @
        str ''. Valid speeds are: OFF, LOW, MEDIUM, HIGH''))"
    using fan_set_domain [THEN conjunct1, of "str ''hi''" SmartHome_init] a(2)
    by (simp add: l invalid_fan_speed_text str_eq_iff)
  have hi: "speed (fan (fst (loop_body SmartHome_init (encode (SetParam FanKind (str ''HIGH'')))))) = HIGH"
    using fan_set_domain [THEN conjunct2, THEN conjunct1, of SmartHome_init]
    by (simp add: fan_accepts_def)
  have fa: "speed (fan (fst (loop_body SmartHome_init (encode (SetParam FanKind (str ''fast'')))))) = OFF"
    using fan_set_domain [THEN conjunct2, THEN conjunct2, THEN conjunct2, THEN conjunct1, of SmartHome_init]
    by (simp add: SmartHome_init_def)
  from a(1) m a(2) h hi fa show ?thesis by (intro conjI)
qed

section \<open>Single requests\<close>

lemma loop_body_unrecognized:
  "loop_body home (encode (Unrecognized text)) =
     (home, Appended (str ''Error: Could not understand the command.''))"
  by (simp add: dict_get_def str_eq_iff)

lemma loop_body_get_status:
  "loop_body home (encode GetStatus) = (home, Appended (status_text home))"
  by (simp add: dict_get_def str_eq_iff)

lemma loop_body_light_turn_on:
  "loop_body home (encode (TurnOn LightKind)) =
     (home\<lparr>light := (light home)\<lparr>Light.state := True\<rparr>\<rparr>, Appended (str ''Light is now ON''))"
  by (simp add: dict_get_def str_eq_iff str_eq_Nil_iff)

lemma loop_body_light_turn_off:
  "loop_body home (encode (TurnOff LightKind)) =
     (home\<lparr>light := (light home)\<lparr>Light.state := False\<rparr>\<rparr>, Appended (str ''Light is now OFF''))"
  by (simp add: dict_get_def str_eq_iff str_eq_Nil_iff)

lemma loop_body_light_set:
  "loop_body home (encode (SetParam LightKind p)) = (home, Silent)"
  by (simp add: dict_get_def str_eq_iff str_eq_Nil_iff)

lemma loop_body_thermostat_turn_on:
  "loop_body home (encode (TurnOn ThermostatKind)) = (home, Silent)"
  by (simp add: dict_get_def str_eq_iff str_eq_Nil_iff)

lemma loop_body_thermostat_turn_off:
  "loop_body home (encode (TurnOff ThermostatKind)) = (home, Silent)"
  by (simp add: dict_get_def str_eq_iff str_eq_Nil_iff)

lemma loop_body_fan_turn_on:
  "loop_body home (encode (TurnOn FanKind)) =
     (home\<lparr>fan := (fan home)\<lparr>speed := LOW\<rparr>\<rparr>, Appended (str ''Fan is now ON (set to low)''))"
  by (simp add: dict_get_def str_eq_iff str_eq_Nil_iff)

lemma loop_body_fan_turn_off:
  "loop_body home (encode (TurnOff FanKind)) =
     (home\<lparr>fan := (fan home)\<lparr>speed := OFF\<rparr>\<rparr>, Appended (str ''Fan is now OFF''))"
  by (simp add: dict_get_def str_eq_iff str_eq_Nil_iff)

lemma status_text_lines:
  "status_text home =
     str ''light: '' @ on_off (Light.state (light home)) @ newline @
     str ''fan: '' @ FanSpeed_value (speed (fan home)) @ newline @
     str ''thermostat: '' @ str_of_int (temperature (thermostat home)) @ degree @ str ''C ('' @
       on_off (Thermostat.state (thermostat home)) @ str '')''"
  by (simp add: status_text_def get_status_def str_def)

text \<open>
  Claim C1. The claim asks for one outcome for every request. The handler appends nothing
  for a combination it has no branch for: \<^verbatim>\<open>set\<close> on the light and
  \<^verbatim>\<open>turn_on\<close> or \<^verbatim>\<open>turn_off\<close> on the thermostat leave \<^verbatim>\<open>responses\<close> as it
  was, so a batch of three requests with such a request in the middle gets two responses.
\<close>

theorem unlisted_combination_silent:
  "responses_of home [encode (SetParam LightKind p)] = []
   \<and> responses_of home [encode (TurnOn ThermostatKind)] = []
   \<and> responses_of home [encode (TurnOff ThermostatKind)] = []
   \<and> responses_of SmartHome_init
        (map encode [TurnOn LightKind, SetParam LightKind (str ''50''), TurnOff LightKind]) =
       [str ''Light is now ON'', str ''Light is now OFF'']"
  by (simp add: responses_of_Cons responses_of_Nil loop_body_light_set
      loop_body_thermostat_turn_on loop_body_thermostat_turn_off
      loop_body_light_turn_on loop_body_light_turn_off del: encode.simps)

text \<open>
  Claim C5, as stated: the response to an unrecognized command echoes its text. The
  response to the command \<^verbatim>\<open>xyz\<close> does not contain \<^verbatim>\<open>xyz\<close>.
\<close>

theorem unrecognized_not_echoed:
  "\<not> list_ex (sublist (str ''xyz''))
       (responses_of SmartHome_init [encode (Unrecognized (str ''xyz''))])"
proof -
  have "responses_of SmartHome_init [encode (Unrecognized (str ''xyz''))] =
          [str ''Error: Could not understand the command.'']"
    by (simp add: responses_of_Cons responses_of_Nil loop_body_unrecognized del: encode.simps)
  moreover have "\<not> sublist (str ''xyz'') (str ''Error: Could not understand the command.'')"
    by code_simp
  ultimately show ?thesis by simp
qed

text \<open>
  Claim C5, amended. An unrecognized command has no device, so it gets exactly one
  response, the fixed error \<^verbatim>\<open>Error: Could not understand the command.\<close>, whatever
  its text; the state is unchanged.
\<close>

theorem unrecognized_fixed_failure:
  "loop_body home (encode (Unrecognized text)) =
     (home, Appended (str ''Error: Could not understand the command.''))
   \<and> responses_of home [encode (Unrecognized text)] =
       [str ''Error: Could not understand the command.'']
   \<and> state_after home [encode (Unrecognized text)] = home
   \<and> fails home (encode (Unrecognized text))"
  by (simp add: responses_of_Cons responses_of_Nil state_after_Cons state_after_Nil fails_def
      is_error_def loop_body_unrecognized str_def del: encode.simps)

lemma status_text_explicit:
  "status_text home =
     str ''light: '' @ (if Light.state (light home) then str ''ON'' else str ''OFF'') @
     [L1 (CHR 0x0A)] @
     str ''fan: '' @
     (case speed (fan home) of
        OFF \<Rightarrow> str ''off'' | LOW \<Rightarrow> str ''low'' | MEDIUM \<Rightarrow> str ''medium'' | HIGH \<Rightarrow> str ''high'') @
     [L1 (CHR 0x0A)] @
     str ''thermostat: '' @ str_of_int (temperature (thermostat home)) @ [L1 (CHR 0xB0)] @
     str ''C ('' @ (if Thermostat.state (thermostat home) then str ''ON'' else str ''OFF'') @
     str '')''"
  by (cases "speed (fan home)") (simp_all add: status_text_lines on_off_def newline_def degree_def)

lemma responses_of_get_status:
  "responses_of home (xs @ encode GetStatus # ys) =
     responses_of home xs @ status_text (state_after home xs) #
       responses_of (state_after home xs) ys"
  by (simp add: responses_of_append responses_of_Cons loop_body_get_status del: encode.simps)

lemma state_after_get_status:
  "state_after home (xs @ encode GetStatus # ys) = state_after home (xs @ ys)"
  by (simp add: state_after_append state_after_Cons loop_body_get_status del: encode.simps)

text \<open>
  Claim C7. A status request leaves the state as it is, and its response is the report of
  the state in which the handler reaches it. The report is three lines: \<^verbatim>\<open>light: \<close>
  with \<^verbatim>\<open>ON\<close> or \<^verbatim>\<open>OFF\<close>, \<^verbatim>\<open>fan: \<close> with the speed in lower case, and
  \<^verbatim>\<open>thermostat: \<close> with the temperature in decimal, the degree sign, \<^verbatim>\<open>C\<close> and
  \<^verbatim>\<open>(ON)\<close> or \<^verbatim>\<open>(OFF)\<close>. In a batch the status response stands between the
  responses of the requests before it and those of the requests after it, it reports the
  state the requests before it have left, and the batch leaves the state it leaves without
  the status request. After \<^verbatim>\<open>turn_on\<close> of the light the status response is the
  report of the home with the light on, whatever requests follow; in the batch
  \<^verbatim>\<open>turn_on\<close> light, status, \<^verbatim>\<open>turn_off\<close> light on the initial home it begins
  with \<^verbatim>\<open>light: ON\<close>.
\<close>

theorem get_status_snapshot:
  "status_text home =
     str ''light: '' @ (if Light.state (light home) then str ''ON'' else str ''OFF'') @
     [L1 (CHR 0x0A)] @
     str ''fan: '' @
     (case speed (fan home) of
        OFF \<Rightarrow> str ''off'' | LOW \<Rightarrow> str ''low'' | MEDIUM \<Rightarrow> str ''medium'' | HIGH \<Rightarrow> str ''high'') @
     [L1 (CHR 0x0A)] @
     str ''thermostat: '' @ str_of_int (temperature (thermostat home)) @ [L1 (CHR 0xB0)] @
     str ''C ('' @ (if Thermostat.state (thermostat home) then str ''ON'' else str ''OFF'') @
     str '')''
   \<and> int_of_str (str_of_int (int n)) = int n
   \<and> loop_body home (encode GetStatus) = (home, Appended (status_text home))
   \<and> responses_of home (xs @ encode GetStatus # ys) =
       responses_of home xs @ status_text (state_after home xs) #
         responses_of (state_after home xs) ys
   \<and> state_after home (xs @ encode GetStatus # ys) = state_after home (xs @ ys)
   \<and> responses_of home (encode (TurnOn LightKind) # encode GetStatus # ys) ! 1 =
       status_text (home\<lparr>light := (light home)\<lparr>Light.state := True\<rparr>\<rparr>)
   \<and> responses_of SmartHome_init (map encode [TurnOn LightKind, GetStatus, TurnOff LightKind]) =
       [str ''Light is now ON'',
        str ''light: ON'' @ [L1 (CHR 0x0A)] @ str ''fan: off'' @ [L1 (CHR 0x0A)] @
          str ''thermostat: 22'' @ [L1 (CHR 0xB0)] @ str ''C (OFF)'',
        str ''Light is now OFF'']
   \<and> responses_of SmartHome_init
        (map encode [SetParam FanKind (str ''high''), SetParam ThermostatKind (str ''24''),
                     GetStatus, TurnOff FanKind]) ! 2 =
       str ''light: OFF'' @ [L1 (CHR 0x0A)] @ str ''fan: high'' @ [L1 (CHR 0x0A)] @
         str ''thermostat: 24'' @ [L1 (CHR 0xB0)] @ str ''C (ON)''"
proof -
  have v: "int_of_str (str_of_int (int n)) = int n"
    by (simp add: str_of_int_def int_of_str_str_of_nat)
  have b: "responses_of home (encode (TurnOn LightKind) # encode GetStatus # ys) ! 1 =
       status_text (home\<lparr>light := (light home)\<lparr>Light.state := True\<rparr>\<rparr>)"
    by (simp add: responses_of_Cons loop_body_get_status loop_body_light_turn_on del: encode.simps)
  have d: "responses_of SmartHome_init (map encode [TurnOn LightKind, GetStatus, TurnOff LightKind]) =
       [str ''Light is now ON'',
        str ''light: ON'' @ [L1 (CHR 0x0A)] @ str ''fan: off'' @ [L1 (CHR 0x0A)] @
          str ''thermostat: 22'' @ [L1 (CHR 0xB0)] @ str ''C (OFF)'',
        str ''Light is now OFF'']"
    by code_simp
  have e: "responses_of SmartHome_init
        (map encode [SetParam FanKind (str ''high''), SetParam ThermostatKind (str ''24''),
                     GetStatus, TurnOff FanKind]) ! 2 =
       str ''light: OFF'' @ [L1 (CHR 0x0A)] @ str ''fan: high'' @ [L1 (CHR 0x0A)] @
         str ''thermostat: 24'' @ [L1 (CHR 0xB0)] @ str ''C (ON)''"
    by code_simp
  from status_text_explicit [of home] v loop_body_get_status [of home]
    responses_of_get_status [of home xs ys] state_after_get_status [of home xs ys] b d e
  show ?thesis by (intro conjI)
qed

section \<open>The effect of one request\<close>

text \<open>
  The body of the loop with the dictionary lookups named, and the case analysis that the
  properties below rest on: a request leaves the state as it is, or it is one of the
  accepted light, fan and thermostat requests.
\<close>

lemma loop_body_PDict_vars:
  assumes "device = dict_get parsed (str ''device'') PNone"
    and "action = dict_get parsed (str ''action'') PNone"
    and "pf = dict_get parsed (str ''param'') (PStr [])"
    and "pt = dict_get parsed (str ''param'') PNone"
  shows "loop_body home (PDict parsed) =
     (if \<not> truthy device \<and> action \<noteq> PStr (str ''get_status'') then
        (home, Appended (str ''Error: Could not understand the command.''))
      else if action = PStr (str ''get_status'') then
        (home, Appended (status_text home))
      else if device = PStr (str ''light'') then
        (if action = PStr (str ''turn_on'') then
           (home\<lparr>light := (light home)\<lparr>Light.state := True\<rparr>\<rparr>, Appended (str ''Light is now ON''))
         else if action = PStr (str ''turn_off'') then
           (home\<lparr>light := (light home)\<lparr>Light.state := False\<rparr>\<rparr>, Appended (str ''Light is now OFF''))
         else (home, Silent))
      else if device = PStr (str ''fan'') then
        (if action = PStr (str ''set'') then
           (case pf of
              PStr p \<Rightarrow>
                (case FanSpeed_getitem (upper (lower p)) of
                   Some sp \<Rightarrow> fan_accepts home sp (lower p)
                 | None \<Rightarrow> (home, Appended (invalid_fan_speed (lower p))))
            | v \<Rightarrow> (home, Raised (attribute_error v ''lower'')))
         else if action = PStr (str ''turn_on'') then
           (home\<lparr>fan := (fan home)\<lparr>speed := LOW\<rparr>\<rparr>, Appended (str ''Fan is now ON (set to low)''))
         else if action = PStr (str ''turn_off'') then
           (home\<lparr>fan := (fan home)\<lparr>speed := OFF\<rparr>\<rparr>, Appended (str ''Fan is now OFF''))
         else (home, Silent))
      else if device = PStr (str ''thermostat'') then
        (if action = PStr (str ''set'') then
           (case pt of
              PNone \<Rightarrow> (home, Appended (str ''Error: Invalid temperature value.''))
            | PStr temp_str \<Rightarrow>
                (if isdigit temp_str then
                   (case py_float temp_str of
                      Inl e \<Rightarrow> (home, Raised e)
                    | Inr temp_float \<Rightarrow>
                        (if 18 \<le> temp_float \<and> temp_float \<le> 30 then
                           (case py_int temp_str of
                              Inl e \<Rightarrow> (home, Raised e)
                            | Inr temp \<Rightarrow> thermostat_accepts home temp)
                         else (home, Appended (str ''Error: Temperature Out Of Range.''))))
                 else (home, Appended (str ''Error: Invalid temperature value.'')))
            | v \<Rightarrow> (home, Raised (attribute_error v ''isdigit'')))
         else (home, Silent))
      else (home, Silent))"
  unfolding assms loop_body.simps Let_def fan_accepts_def thermostat_accepts_def
  by (rule refl)

lemma loop_body_cases:
  obtains (same) r where "loop_body home v = (home, r)"
  | (light) parsed b where "v = PDict parsed"
      and "dict_get parsed (str ''device'') PNone = PStr (str ''light'')"
      and "loop_body home v =
             (home\<lparr>light := (light home)\<lparr>Light.state := b\<rparr>\<rparr>, Appended ((str ''Light is now '') @ on_off b))"
  | (fan) parsed sp msg where "v = PDict parsed"
      and "dict_get parsed (str ''device'') PNone = PStr (str ''fan'')"
      and "loop_body home v = (home\<lparr>fan := (fan home)\<lparr>speed := sp\<rparr>\<rparr>, Appended msg)"
      and "\<not> is_error msg"
  | (thermostat) parsed temp where "v = PDict parsed"
      and "dict_get parsed (str ''device'') PNone = PStr (str ''thermostat'')"
      and "18 \<le> temp" and "temp \<le> 30"
      and "loop_body home v = thermostat_accepts home temp"
proof (cases v)
  case (PDict parsed)
  define device where "device = dict_get parsed (str ''device'') PNone"
  define action where "action = dict_get parsed (str ''action'') PNone"
  define pf where "pf = dict_get parsed (str ''param'') (PStr [])"
  define pt where "pt = dict_get parsed (str ''param'') PNone"
  note lb = loop_body_PDict_vars [OF device_def action_def pf_def pt_def, of home, folded PDict]
  show thesis
  proof (cases "\<not> truthy device \<and> action \<noteq> PStr (str ''get_status'')")
    case True
    then have "loop_body home v = (home, Appended (str ''Error: Could not understand the command.''))"
      by (simp only: lb) (simp add: str_eq_iff str_eq_Nil_iff)
    then show thesis by (rule same)
  next
    case has_device: False
    show thesis
    proof (cases "action = PStr (str ''get_status'')")
      case True
      then have "loop_body home v = (home, Appended (status_text home))"
        by (simp only: lb) (simp add: str_eq_iff str_eq_Nil_iff)
      then show thesis by (rule same)
    next
      case not_status: False
      show thesis
      proof (cases "device = PStr (str ''light'')")
        case True
        have dev: "dict_get parsed (str ''device'') PNone = PStr (str ''light'')"
          using True unfolding device_def .
        show thesis
        proof (cases "action = PStr (str ''turn_on'')")
          case on: True
          from True on have "loop_body home v =
              (home\<lparr>light := (light home)\<lparr>Light.state := True\<rparr>\<rparr>, Appended ((str ''Light is now '') @ on_off True))"
            by (simp only: lb) (simp add: on_off_def str_eq_iff str_eq_Nil_iff str_def)
          with PDict dev show thesis
            by (rule light)
        next
          case not_on: False
          show thesis
          proof (cases "action = PStr (str ''turn_off'')")
            case off: True
            from True off have "loop_body home v =
                (home\<lparr>light := (light home)\<lparr>Light.state := False\<rparr>\<rparr>, Appended ((str ''Light is now '') @ on_off False))"
              by (simp only: lb) (simp add: on_off_def str_eq_iff str_eq_Nil_iff str_def)
            with PDict dev show thesis
              by (rule light)
          next
            case False
            with not_status True not_on have "loop_body home v = (home, Silent)"
              by (simp only: lb) (simp add: str_eq_iff str_eq_Nil_iff)
            then show thesis by (rule same)
          qed
        qed
      next
        case not_light: False
        show thesis
        proof (cases "device = PStr (str ''fan'')")
          case True
          have dev: "dict_get parsed (str ''device'') PNone = PStr (str ''fan'')"
            using True unfolding device_def .
          show thesis
          proof (cases "action = PStr (str ''set'')")
            case set: True
            from True set have fan_set: "loop_body home v =
               (case pf of
                  PStr p \<Rightarrow>
                    (case FanSpeed_getitem (upper (lower p)) of
                       Some sp \<Rightarrow> fan_accepts home sp (lower p)
                     | None \<Rightarrow> (home, Appended (invalid_fan_speed (lower p))))
                | v \<Rightarrow> (home, Raised (attribute_error v ''lower'')))"
              by (simp only: lb) (simp add: str_eq_iff str_eq_Nil_iff)
            show thesis
            proof (cases pf)
              case (PStr p)
              show thesis
              proof (cases "FanSpeed_getitem (upper (lower p))")
                case None
                with PStr fan_set have "loop_body home v = (home, Appended (invalid_fan_speed (lower p)))"
                  by simp
                then show thesis by (rule same)
              next
                case (Some sp)
                with PStr fan_set have "loop_body home v =
                    (home\<lparr>fan := (fan home)\<lparr>speed := sp\<rparr>\<rparr>, Appended ((str ''Fan speed set to '') @ lower p))"
                  by (simp add: fan_accepts_def)
                moreover have "\<not> is_error ((str ''Fan speed set to '') @ lower p)"
                  by (simp add: is_error_def str_def)
                ultimately show thesis
                  using PDict dev by (intro fan)
              qed
            next
              case PNone
              with fan_set have "loop_body home v = (home, Raised (attribute_error PNone ''lower''))"
                by simp
              then show thesis by (rule same)
            next
              case (PBool x)
              with fan_set have "loop_body home v = (home, Raised (attribute_error (PBool x) ''lower''))"
                by simp
              then show thesis by (rule same)
            next
              case (PInt x)
              with fan_set have "loop_body home v = (home, Raised (attribute_error (PInt x) ''lower''))"
                by simp
              then show thesis by (rule same)
            next
              case (PList x)
              with fan_set have "loop_body home v = (home, Raised (attribute_error (PList x) ''lower''))"
                by simp
              then show thesis by (rule same)
            next
              case (PDict x)
              with fan_set have "loop_body home v = (home, Raised (attribute_error (PDict x) ''lower''))"
                by simp
              then show thesis by (rule same)
            qed
          next
            case not_set: False
            show thesis
            proof (cases "action = PStr (str ''turn_on'')")
              case on: True
              from True on have "loop_body home v =
                  (home\<lparr>fan := (fan home)\<lparr>speed := LOW\<rparr>\<rparr>, Appended (str ''Fan is now ON (set to low)''))"
                by (simp only: lb) (simp add: str_eq_iff str_eq_Nil_iff)
              moreover have "\<not> is_error (str ''Fan is now ON (set to low)'')"
                by (simp add: is_error_def str_def)
              ultimately show thesis
                using PDict dev by (intro fan)
            next
              case not_on: False
              show thesis
              proof (cases "action = PStr (str ''turn_off'')")
                case off: True
                from True off have "loop_body home v =
                    (home\<lparr>fan := (fan home)\<lparr>speed := OFF\<rparr>\<rparr>, Appended (str ''Fan is now OFF''))"
                  by (simp only: lb) (simp add: str_eq_iff str_eq_Nil_iff)
                moreover have "\<not> is_error (str ''Fan is now OFF'')"
                  by (simp add: is_error_def str_def)
                ultimately show thesis
                  using PDict dev by (intro fan)
              next
                case False
                with not_status True not_set not_on have "loop_body home v = (home, Silent)"
                  by (simp only: lb) (simp add: str_eq_iff str_eq_Nil_iff)
                then show thesis by (rule same)
              qed
            qed
          qed
        next
          case not_fan: False
          show thesis
          proof (cases "device = PStr (str ''thermostat'')")
            case True
            have dev: "dict_get parsed (str ''device'') PNone = PStr (str ''thermostat'')"
              using True unfolding device_def .
            show thesis
            proof (cases "action = PStr (str ''set'')")
              case set: True
              from True set have th_set: "loop_body home v =
                 (case pt of
                    PNone \<Rightarrow> (home, Appended (str ''Error: Invalid temperature value.''))
                  | PStr temp_str \<Rightarrow>
                      (if isdigit temp_str then
                         (case py_float temp_str of
                            Inl e \<Rightarrow> (home, Raised e)
                          | Inr temp_float \<Rightarrow>
                              (if 18 \<le> temp_float \<and> temp_float \<le> 30 then
                                 (case py_int temp_str of
                                    Inl e \<Rightarrow> (home, Raised e)
                                  | Inr temp \<Rightarrow> thermostat_accepts home temp)
                               else (home, Appended (str ''Error: Temperature Out Of Range.''))))
                       else (home, Appended (str ''Error: Invalid temperature value.'')))
                  | v \<Rightarrow> (home, Raised (attribute_error v ''isdigit'')))"
                by (simp only: lb) (simp add: str_eq_iff str_eq_Nil_iff)
              show thesis
              proof (cases pt)
                case (PStr temp_str)
                show thesis
                proof (cases "isdigit temp_str")
                  case digits: True
                  show thesis
                  proof (cases "py_float temp_str")
                    case (Inl e)
                    with PStr digits th_set have "loop_body home v = (home, Raised e)"
                      by simp
                    then show thesis by (rule same)
                  next
                    case (Inr temp_float)
                    then have float_value: "temp_float = int_of_str temp_str"
                      by (simp add: py_float_def split: if_splits)
                    show thesis
                    proof (cases "18 \<le> temp_float \<and> temp_float \<le> 30")
                      case ok: True
                      show thesis
                      proof (cases "py_int temp_str")
                        case int_raises: (Inl e)
                        with PStr digits Inr ok th_set have "loop_body home v = (home, Raised e)"
                          by simp
                        then show thesis by (rule same)
                      next
                        case int_returns: (Inr temp)
                        then have "temp = int_of_str temp_str"
                          by (simp add: py_int_def split: if_splits)
                        with float_value ok have range: "18 \<le> temp" "temp \<le> 30"
                          by simp_all
                        from PStr digits Inr ok int_returns th_set
                        have "loop_body home v = thermostat_accepts home temp"
                          by simp
                        with PDict dev range show thesis
                          by (intro thermostat)
                      qed
                    next
                      case False
                      with PStr digits Inr th_set
                      have "loop_body home v = (home, Appended (str ''Error: Temperature Out Of Range.''))"
                        by simp
                      then show thesis by (rule same)
                    qed
                  qed
                next
                  case False
                  with PStr th_set
                  have "loop_body home v = (home, Appended (str ''Error: Invalid temperature value.''))"
                    by simp
                  then show thesis by (rule same)
                qed
              next
                case PNone
                with th_set have "loop_body home v = (home, Appended (str ''Error: Invalid temperature value.''))"
                  by simp
                then show thesis by (rule same)
              next
                case (PBool x)
                with th_set have "loop_body home v = (home, Raised (attribute_error (PBool x) ''isdigit''))"
                  by simp
                then show thesis by (rule same)
              next
                case (PInt x)
                with th_set have "loop_body home v = (home, Raised (attribute_error (PInt x) ''isdigit''))"
                  by simp
                then show thesis by (rule same)
              next
                case (PList x)
                with th_set have "loop_body home v = (home, Raised (attribute_error (PList x) ''isdigit''))"
                  by simp
                then show thesis by (rule same)
              next
                case (PDict x)
                with th_set have "loop_body home v = (home, Raised (attribute_error (PDict x) ''isdigit''))"
                  by simp
                then show thesis by (rule same)
              qed
            next
              case False
              with not_status True have "loop_body home v = (home, Silent)"
                by (simp only: lb) (simp add: str_eq_iff str_eq_Nil_iff)
              then show thesis by (rule same)
            qed
          next
            case False
            with has_device not_status not_light not_fan have "loop_body home v = (home, Silent)"
              by (simp only: lb) (simp add: str_eq_iff str_eq_Nil_iff)
            then show thesis by (rule same)
          qed
        qed
      qed
    qed
  qed
next
  case PNone
  then have "loop_body home v = (home, Raised (attribute_error PNone ''get''))" by simp
  then show thesis by (rule same)
next
  case (PBool x)
  then have "loop_body home v = (home, Raised (attribute_error (PBool x) ''get''))" by simp
  then show thesis by (rule same)
next
  case (PInt x)
  then have "loop_body home v = (home, Raised (attribute_error (PInt x) ''get''))" by simp
  then show thesis by (rule same)
next
  case (PStr x)
  then have "loop_body home v = (home, Raised (attribute_error (PStr x) ''get''))" by simp
  then show thesis by (rule same)
next
  case (PList x)
  then have "loop_body home v = (home, Raised (attribute_error (PList x) ''get''))" by simp
  then show thesis by (rule same)
qed

section \<open>Failures and frames\<close>

lemma fails_unchanged:
  assumes "fails home v"
  shows "fst (loop_body home v) = home"
proof (cases rule: loop_body_cases [of home v])
  case (same r)
  then show ?thesis by simp
next
  case (light parsed b)
  with assms have "is_error (str ''Light is now '' @ on_off b)"
    by (simp add: fails_def)
  then show ?thesis by (simp add: is_error_def str_def)
next
  case (fan parsed sp msg)
  with assms show ?thesis by (simp add: fails_def)
next
  case (thermostat parsed temp)
  with assms thermostat_accepts_no_error [of home temp] show ?thesis
    by (simp add: fails_def)
qed

lemma loop_body_light_frame:
  assumes "\<forall>parsed. v = PDict parsed \<longrightarrow> dict_get parsed (str ''device'') PNone \<noteq> PStr (str ''light'')"
  shows "light (fst (loop_body home v)) = light home"
proof (cases rule: loop_body_cases [of home v])
  case (light parsed b)
  with assms show ?thesis by simp
qed (simp_all add: thermostat_accepts_def)

lemma loop_body_fan_frame:
  assumes "\<forall>parsed. v = PDict parsed \<longrightarrow> dict_get parsed (str ''device'') PNone \<noteq> PStr (str ''fan'')"
  shows "fan (fst (loop_body home v)) = fan home"
proof (cases rule: loop_body_cases [of home v])
  case (fan parsed sp msg)
  with assms show ?thesis by simp
qed (simp_all add: thermostat_accepts_def)

lemma loop_body_thermostat_frame:
  assumes "\<forall>parsed. v = PDict parsed \<longrightarrow> dict_get parsed (str ''device'') PNone \<noteq> PStr (str ''thermostat'')"
  shows "thermostat (fst (loop_body home v)) = thermostat home"
proof (cases rule: loop_body_cases [of home v])
  case (thermostat parsed temp)
  with assms show ?thesis by simp
qed simp_all

lemma loop_body_temperature_ok:
  assumes "temperature_ok home"
  shows "temperature_ok (fst (loop_body home v))"
proof (cases rule: loop_body_cases [of home v])
  case (thermostat parsed temp)
  then show ?thesis by (simp add: temperature_ok_def thermostat_accepts_def)
qed (use assms in \<open>simp_all add: temperature_ok_def\<close>)

lemma encode_device:
  assumes "req = TurnOn d \<or> req = TurnOff d \<or> req = SetParam d p"
  obtains parsed where "encode req = PDict parsed"
    and "dict_get parsed (str ''device'') PNone = PStr (str (device_name d))"
  using assms by (auto simp: dict_get_def str_eq_iff)

lemma device_name_neq:
  "d \<noteq> LightKind \<Longrightarrow> device_name d \<noteq> ''light''"
  "d \<noteq> FanKind \<Longrightarrow> device_name d \<noteq> ''fan''"
  "d \<noteq> ThermostatKind \<Longrightarrow> device_name d \<noteq> ''thermostat''"
  by (cases d; simp)+

text \<open>
  Claim C9. A request whose response is an error (no device, an invalid fan speed, an
  invalid or out-of-range temperature, or an exception caught by the handler) leaves the
  whole state exactly as it was.
\<close>

theorem failure_leaves_state:
  "fails home v \<longrightarrow> fst (loop_body home v) = home \<and> state_after home [v] = home"
proof
  assume "fails home v"
  then have "fst (loop_body home v) = home"
    by (rule fails_unchanged)
  then show "fst (loop_body home v) = home \<and> state_after home [v] = home"
    by (simp add: state_after_Cons state_after_Nil)
qed

theorem failure_leaves_state_witness:
  "fails SmartHome_init (encode (Unrecognized (str ''xyz'')))
   \<and> state_after SmartHome_init [encode (Unrecognized (str ''xyz''))] = SmartHome_init
   \<and> fails SmartHome_init (encode (SetParam FanKind (str ''fast'')))
   \<and> state_after SmartHome_init [encode (SetParam FanKind (str ''fast''))] = SmartHome_init
   \<and> fails SmartHome_init (encode (SetParam ThermostatKind (str ''warm'')))
   \<and> state_after SmartHome_init [encode (SetParam ThermostatKind (str ''warm''))] = SmartHome_init
   \<and> fails SmartHome_init (encode (SetParam ThermostatKind (str ''31'')))
   \<and> state_after SmartHome_init [encode (SetParam ThermostatKind (str ''31''))] = SmartHome_init
   \<and> fails SmartHome_init
        (PDict [(str ''action'', PStr (str ''set'')), (str ''device'', PStr (str ''fan'')), (str ''param'', PInt 3)])
   \<and> state_after SmartHome_init
        [PDict [(str ''action'', PStr (str ''set'')), (str ''device'', PStr (str ''fan'')), (str ''param'', PInt 3)]] =
       SmartHome_init
   \<and> fails SmartHome_init (encode (SetParam ThermostatKind superscript_24))
   \<and> state_after SmartHome_init [encode (SetParam ThermostatKind superscript_24)] = SmartHome_init"
proof -
  have f1: "fails SmartHome_init (encode (Unrecognized (str ''xyz'')))"
    by code_simp
  have f2: "fails SmartHome_init (encode (SetParam FanKind (str ''fast'')))"
    by code_simp
  have f3: "fails SmartHome_init (encode (SetParam ThermostatKind (str ''warm'')))"
    by code_simp
  have f4: "fails SmartHome_init (encode (SetParam ThermostatKind (str ''31'')))"
    by code_simp
  have f5: "fails SmartHome_init
        (PDict [(str ''action'', PStr (str ''set'')), (str ''device'', PStr (str ''fan'')), (str ''param'', PInt 3)])"
    by code_simp
  from f1 failure_leaves_state [of SmartHome_init "encode (Unrecognized (str ''xyz''))"]
  have s1: "state_after SmartHome_init [encode (Unrecognized (str ''xyz''))] = SmartHome_init"
    by (simp only:)
  from f2 failure_leaves_state [of SmartHome_init "encode (SetParam FanKind (str ''fast''))"]
  have s2: "state_after SmartHome_init [encode (SetParam FanKind (str ''fast''))] = SmartHome_init"
    by (simp only:)
  from f3 failure_leaves_state [of SmartHome_init "encode (SetParam ThermostatKind (str ''warm''))"]
  have s3: "state_after SmartHome_init [encode (SetParam ThermostatKind (str ''warm''))] = SmartHome_init"
    by (simp only:)
  from f4 failure_leaves_state [of SmartHome_init "encode (SetParam ThermostatKind (str ''31''))"]
  have s4: "state_after SmartHome_init [encode (SetParam ThermostatKind (str ''31''))] = SmartHome_init"
    by (simp only:)
  from f5 failure_leaves_state [of SmartHome_init
        "PDict [(str ''action'', PStr (str ''set'')), (str ''device'', PStr (str ''fan'')), (str ''param'', PInt 3)]"]
  have s5: "state_after SmartHome_init
        [PDict [(str ''action'', PStr (str ''set'')), (str ''device'', PStr (str ''fan'')), (str ''param'', PInt 3)]] =
       SmartHome_init"
    by (simp only:)
  have f6: "fails SmartHome_init (encode (SetParam ThermostatKind superscript_24))"
    by code_simp
  from f6 failure_leaves_state [of SmartHome_init "encode (SetParam ThermostatKind superscript_24)"]
  have s6: "state_after SmartHome_init [encode (SetParam ThermostatKind superscript_24)] = SmartHome_init"
    by (simp only:)
  from f1 s1 f2 s2 f3 s3 f4 s4 f5 s5 f6 s6 show ?thesis
    by (intro conjI)
qed

text \<open>
  Claim C10. A \<^verbatim>\<open>turn_on\<close>, \<^verbatim>\<open>turn_off\<close> or \<^verbatim>\<open>set\<close> request that names device
  \<open>d\<close> changes at most that device: the other two devices are as before.
\<close>

theorem device_frame:
  assumes "req = TurnOn d \<or> req = TurnOff d \<or> req = SetParam d p"
  shows "(d \<noteq> LightKind \<longrightarrow> light (fst (loop_body home (encode req))) = light home)
       \<and> (d \<noteq> FanKind \<longrightarrow> fan (fst (loop_body home (encode req))) = fan home)
       \<and> (d \<noteq> ThermostatKind \<longrightarrow>
            thermostat (fst (loop_body home (encode req))) = thermostat home)"
proof -
  from assms obtain parsed where enc: "encode req = PDict parsed"
    and dev: "dict_get parsed (str ''device'') PNone = PStr (str (device_name d))"
    by (rule encode_device)
  have "light (fst (loop_body home (encode req))) = light home" if "d \<noteq> LightKind"
    using that enc dev by (intro loop_body_light_frame) (simp add: device_name_neq str_eq_iff)
  moreover have "fan (fst (loop_body home (encode req))) = fan home" if "d \<noteq> FanKind"
    using that enc dev by (intro loop_body_fan_frame) (simp add: device_name_neq str_eq_iff)
  moreover have "thermostat (fst (loop_body home (encode req))) = thermostat home"
    if "d \<noteq> ThermostatKind"
    using that enc dev by (intro loop_body_thermostat_frame) (simp add: device_name_neq str_eq_iff)
  ultimately show ?thesis by simp
qed

theorem device_frame_witness:
  "fan (fst (loop_body SmartHome_init (encode (TurnOn LightKind)))) = fan SmartHome_init
   \<and> thermostat (fst (loop_body SmartHome_init (encode (TurnOn LightKind)))) =
       thermostat SmartHome_init
   \<and> light (fst (loop_body SmartHome_init (encode (SetParam ThermostatKind (str ''25''))))) =
       light SmartHome_init
   \<and> fan (fst (loop_body SmartHome_init (encode (SetParam ThermostatKind (str ''25''))))) =
       fan SmartHome_init
   \<and> light (fst (loop_body SmartHome_init (encode (TurnOff FanKind)))) = light SmartHome_init
   \<and> thermostat (fst (loop_body SmartHome_init (encode (TurnOff FanKind)))) =
       thermostat SmartHome_init"
  using device_frame [of "TurnOn LightKind" LightKind "[]" SmartHome_init]
    device_frame [of "SetParam ThermostatKind (str ''25'')" ThermostatKind "str ''25''" SmartHome_init]
    device_frame [of "TurnOff FanKind" FanKind "[]" SmartHome_init]
  by (simp del: encode.simps)

section \<open>Batches and sessions\<close>

lemma handle_command_eq:
  "handle_command home cmds = (state_after home cmds, join newline (responses_of home cmds))"
  by (simp add: handle_command_def state_after_def responses_of_def split: prod.split)

lemma state_after_temperature_ok:
  "temperature_ok home \<Longrightarrow> temperature_ok (state_after home cmds)"
proof (induction cmds arbitrary: home)
  case Nil
  then show ?case by (simp add: state_after_Nil)
next
  case (Cons v rest)
  from Cons.prems have "temperature_ok (fst (loop_body home v))"
    by (rule loop_body_temperature_ok)
  then have "temperature_ok (state_after (fst (loop_body home v)) rest)"
    by (rule Cons.IH)
  then show ?case by (simp only: state_after_Cons)
qed

lemma run_session_temperature_ok:
  "temperature_ok home \<Longrightarrow> temperature_ok (run_session home batches)"
proof (induction batches arbitrary: home)
  case Nil
  then show ?case by (simp add: run_session_def)
next
  case (Cons batch rest)
  from Cons.prems have "temperature_ok (state_after home batch)"
    by (rule state_after_temperature_ok)
  then have "temperature_ok (run_session (state_after home batch) rest)"
    by (rule Cons.IH)
  then show ?case by (simp add: run_session_def handle_command_eq)
qed

lemma temperature_ok_init: "temperature_ok SmartHome_init"
  by (simp add: temperature_ok_def SmartHome_init_def)

text \<open>
  Claim C8. In every state reached from the initial home by any sequence of calls of
  \<^verbatim>\<open>handle_command\<close>, the thermostat's temperature lies in 18..30: it starts at 22
  and only an accepted thermostat setting changes it.
\<close>

theorem temperature_invariant:
  "temperature_ok SmartHome_init
   \<and> temperature_ok (run_session SmartHome_init batches)
   \<and> 18 \<le> temperature (thermostat (run_session SmartHome_init batches))
   \<and> temperature (thermostat (run_session SmartHome_init batches)) \<le> 30"
proof -
  have "temperature_ok (run_session SmartHome_init batches)"
    using temperature_ok_init by (rule run_session_temperature_ok)
  with temperature_ok_init show ?thesis
    by (simp add: temperature_ok_def)
qed

section \<open>Requests without a branch\<close>

text \<open>
  Claim C3. The claim asks that a request of a batch that fails validation contributes a
  failure outcome. A \<^verbatim>\<open>set\<close> request on the light is not a valid request, and the
  handler has no branch for it: in the batch \<^verbatim>\<open>turn_on\<close> fan, \<^verbatim>\<open>set\<close> light,
  \<^verbatim>\<open>set\<close> thermostat to 24 on the initial home it contributes no response at all.
  The requests before and after it are applied: the batch gets the two responses of the
  fan and of the thermostat, and it leaves the fan at low and the thermostat at 24 and on.
\<close>

theorem unsupported_request_no_outcome:
  "responses_of SmartHome_init
     (map encode [TurnOn FanKind, SetParam LightKind (str ''50''),
                  SetParam ThermostatKind (str ''24'')]) =
     [str ''Fan is now ON (set to low)'',
      str ''Thermostat set to 24'' @ [L1 (CHR 0xB0)] @ str ''C'']
   \<and> state_after SmartHome_init
        (map encode [TurnOn FanKind, SetParam LightKind (str ''50''),
                     SetParam ThermostatKind (str ''24'')]) =
       \<lparr>light = \<lparr>Light.state = False\<rparr>, fan = \<lparr>speed = LOW\<rparr>,
        thermostat = \<lparr>temperature = 24, Thermostat.state = True\<rparr>\<rparr>
   \<and> loop_body \<lparr>light = \<lparr>Light.state = False\<rparr>, fan = \<lparr>speed = LOW\<rparr>,
                 thermostat = \<lparr>temperature = 22, Thermostat.state = False\<rparr>\<rparr>
        (encode (SetParam LightKind (str ''50''))) =
       (\<lparr>light = \<lparr>Light.state = False\<rparr>, fan = \<lparr>speed = LOW\<rparr>,
         thermostat = \<lparr>temperature = 22, Thermostat.state = False\<rparr>\<rparr>, Silent)
   \<and> appended Silent = []"
proof -
  have r: "responses_of SmartHome_init
     (map encode [TurnOn FanKind, SetParam LightKind (str ''50''),
                  SetParam ThermostatKind (str ''24'')]) =
     [str ''Fan is now ON (set to low)'',
      str ''Thermostat set to 24'' @ [L1 (CHR 0xB0)] @ str ''C'']"
    by code_simp
  have s: "state_after SmartHome_init
        (map encode [TurnOn FanKind, SetParam LightKind (str ''50''),
                     SetParam ThermostatKind (str ''24'')]) =
       \<lparr>light = \<lparr>Light.state = False\<rparr>, fan = \<lparr>speed = LOW\<rparr>,
        thermostat = \<lparr>temperature = 24, Thermostat.state = True\<rparr>\<rparr>"
    by code_simp
  have l: "loop_body \<lparr>light = \<lparr>Light.state = False\<rparr>, fan = \<lparr>speed = LOW\<rparr>,
                 thermostat = \<lparr>temperature = 22, Thermostat.state = False\<rparr>\<rparr>
        (encode (SetParam LightKind (str ''50''))) =
       (\<lparr>light = \<lparr>Light.state = False\<rparr>, fan = \<lparr>speed = LOW\<rparr>,
         thermostat = \<lparr>temperature = 22, Thermostat.state = False\<rparr>\<rparr>, Silent)"
    by (rule loop_body_light_set)
  from r s l show ?thesis by simp
qed

text \<open>
  Claim C4. The claim asks that every error becomes a failure outcome. The handler
  returns for every batch, and an exception raised while a request is processed becomes
  the response \<^verbatim>\<open>Error processing command: ...\<close>; but a request with an unsupported
  combination of device and action is given no response: for the batch of one
  \<^verbatim>\<open>turn_off\<close> on the thermostat, or of one \<^verbatim>\<open>set\<close> on the light, the handler
  returns the empty string, and in a batch of a value that is not a dictionary followed by
  \<^verbatim>\<open>turn_on\<close> on the thermostat only the first gets a response.
\<close>

theorem unsupported_error_not_converted:
  "handle_command SmartHome_init [encode (TurnOff ThermostatKind)] = (SmartHome_init, [])
   \<and> handle_command SmartHome_init [encode (SetParam LightKind (str ''50''))] = (SmartHome_init, [])
   \<and> handle_command SmartHome_init [PInt 3, encode (TurnOn ThermostatKind)] =
       (SmartHome_init,
        str ''Error processing command: '' @ [L1 (CHR 0x27)] @ str ''int'' @ [L1 (CHR 0x27)] @
        str '' object has no attribute '' @ [L1 (CHR 0x27)] @ str ''get'' @ [L1 (CHR 0x27)])"
proof -
  have a: "handle_command SmartHome_init [encode (TurnOff ThermostatKind)] = (SmartHome_init, [])"
    by code_simp
  have b: "handle_command SmartHome_init [encode (SetParam LightKind (str ''50''))] =
      (SmartHome_init, [])"
    by code_simp
  have c: "handle_command SmartHome_init [PInt 3, encode (TurnOn ThermostatKind)] =
       (SmartHome_init,
        str ''Error processing command: '' @ [L1 (CHR 0x27)] @ str ''int'' @ [L1 (CHR 0x27)] @
        str '' object has no attribute '' @ [L1 (CHR 0x27)] @ str ''get'' @ [L1 (CHR 0x27)])"
    by code_simp
  from a b c show ?thesis by (intro conjI)
qed

end
